theory Spec2Isabelle
  imports Main
begin

section \<open>Data model\<close>

text \<open>
  The resolver of \<^verbatim>\<open>country_capitals/main.py\<close> maps a country identifier to the name
  of the country's capital. It reads two collaborators: the country directory
  (\<^verbatim>\<open>pycountry.countries\<close>) and the capital table (\<^verbatim>\<open>capitals\<close>, loaded once from
  \<^verbatim>\<open>capitals.json\<close>). Neither is authored in \<^verbatim>\<open>main.py\<close>, so both are parameters of
  every function below.

  A Python \<^verbatim>\<open>str\<close> is a \<^typ>\<open>string\<close>: a list of characters, each standing for one code
  point below 256, so that \<^const>\<open>length\<close> is Python's \<^verbatim>\<open>len\<close>.
\<close>

text \<open>A country record of the directory. The resolver reads its \<^verbatim>\<open>alpha_3\<close> field only.\<close>

record country =
  alpha_2 :: string
  alpha_3 :: string
  numeric :: string
  name :: string

text \<open>
  The argument \<^verbatim>\<open>query: Any\<close> of \<^verbatim>\<open>get_capital\<close>: a string, or a country record that was
  resolved before.
\<close>

datatype query = Str string | Rec country

text \<open>
  The exception classes that the resolver meets. \<^verbatim>\<open>CountryNotFoundError\<close> and
  \<^verbatim>\<open>CapitalNotFoundError\<close> are declared in \<^verbatim>\<open>main.py\<close> as subclasses of \<^verbatim>\<open>ValueError\<close>;
  \<^verbatim>\<open>AttributeError\<close> is what Python raises when an attribute or a method is read from an
  object that does not have it, and it is not a \<^verbatim>\<open>ValueError\<close>.
\<close>

datatype error = ValueError | CountryNotFoundError | CapitalNotFoundError | AttributeError

text \<open>\<^verbatim>\<open>isinstance(e, ValueError)\<close>: what the clause \<^verbatim>\<open>except ValueError\<close> catches.\<close>

fun is_ValueError :: "error \<Rightarrow> bool" where
  "is_ValueError ValueError = True"
| "is_ValueError CountryNotFoundError = True"
| "is_ValueError CapitalNotFoundError = True"
| "is_ValueError AttributeError = False"

text \<open>The capital table: a dictionary from alpha-3 codes to capital names.\<close>

type_synonym capital_table = "string \<rightharpoonup> string"

text \<open>
  The country directory. \<^verbatim>\<open>pycountry.countries.get(field=key)\<close> returns a record or
  \<^verbatim>\<open>None\<close>, and \<^verbatim>\<open>search_fuzzy\<close> returns a list of records, best match first. The lookups
  by code are reached with strings only (their callers have measured the key with
  \<^verbatim>\<open>len\<close> or \<^verbatim>\<open>isdigit\<close> before); the lookups by name receive the query as it was
  passed in.
\<close>

record directory =
  get_alpha_2 :: "string \<Rightarrow> country option"
  get_alpha_3 :: "string \<Rightarrow> country option"
  get_numeric :: "string \<Rightarrow> country option"
  get_name :: "query \<Rightarrow> country option"
  get_common_name :: "query \<Rightarrow> country option"
  get_official_name :: "query \<Rightarrow> country option"
  search_fuzzy :: "query \<Rightarrow> country list"

section \<open>String primitives\<close>

text \<open>
  The characters for which \<^verbatim>\<open>str.isdigit\<close> holds, among the code points below 256: the
  ten decimal digits and the superscripts two, three and one.
\<close>

definition is_digit_char :: "char \<Rightarrow> bool" where
  "is_digit_char c = (c \<in> set (''0123456789'' @ [CHR 0xB2, CHR 0xB3, CHR 0xB9]))"

text \<open>\<^verbatim>\<open>s.isdigit()\<close>: at least one character, and every character a digit.\<close>

definition isdigit :: "string \<Rightarrow> bool" where
  "isdigit s = (s \<noteq> [] \<and> list_all is_digit_char s)"

text \<open>
  \<^verbatim>\<open>s.zfill(width)\<close>: pads with zeros on the left up to \<^verbatim>\<open>width\<close>, after a leading sign
  if there is one; a string that is long enough is returned as it is.
\<close>

definition zfill :: "nat \<Rightarrow> string \<Rightarrow> string" where
  "zfill width s =
     (if width \<le> length s then s
      else (case s of
              [] \<Rightarrow> replicate width (CHR ''0'')
            | c # rest \<Rightarrow>
                if c = CHR ''+'' \<or> c = CHR ''-''
                then c # replicate (width - length s) (CHR ''0'') @ rest
                else replicate (width - length s) (CHR ''0'') @ s))"

section \<open>The strategies\<close>

text \<open>
  Each strategy ends with the same two lines,
  \<^verbatim>\<open>if country.alpha_3 not in capitals: raise ...\<close> and
  \<^verbatim>\<open>return capitals[country.alpha_3]\<close>, written below as one case distinction on the
  table entry; the strategies differ in the exception class that they raise there.
\<close>

definition get_capital_by_pycountry_country :: "capital_table \<Rightarrow> query \<Rightarrow> error + string" where
  "get_capital_by_pycountry_country capitals q =
     (case q of
        Str s \<Rightarrow> Inl AttributeError
      | Rec c \<Rightarrow>
          (case capitals (alpha_3 c) of
             None \<Rightarrow> Inl ValueError
           | Some v \<Rightarrow> Inr v))"

definition get_capital_by_alpha3 :: "directory \<Rightarrow> capital_table \<Rightarrow> string \<Rightarrow> error + string" where
  "get_capital_by_alpha3 d capitals alpha3 =
     (if length alpha3 \<noteq> 3 then Inl ValueError
      else (case get_alpha_3 d alpha3 of
              None \<Rightarrow> Inl CountryNotFoundError
            | Some c \<Rightarrow>
                (case capitals (alpha_3 c) of
                   None \<Rightarrow> Inl CapitalNotFoundError
                 | Some v \<Rightarrow> Inr v)))"

definition get_capital_by_alpha2 :: "directory \<Rightarrow> capital_table \<Rightarrow> string \<Rightarrow> error + string" where
  "get_capital_by_alpha2 d capitals alpha2 =
     (if length alpha2 \<noteq> 2 then Inl ValueError
      else (case get_alpha_2 d alpha2 of
              None \<Rightarrow> Inl CountryNotFoundError
            | Some c \<Rightarrow>
                (case capitals (alpha_3 c) of
                   None \<Rightarrow> Inl CapitalNotFoundError
                 | Some v \<Rightarrow> Inr v)))"

definition get_capital_by_numeric :: "directory \<Rightarrow> capital_table \<Rightarrow> string \<Rightarrow> error + string" where
  "get_capital_by_numeric d capitals code =
     (if \<not> isdigit code then Inl ValueError
      else (case get_numeric d (zfill 3 code) of
              None \<Rightarrow> Inl CountryNotFoundError
            | Some c \<Rightarrow>
                (case capitals (alpha_3 c) of
                   None \<Rightarrow> Inl CapitalNotFoundError
                 | Some v \<Rightarrow> Inr v)))"

text \<open>
  \<^verbatim>\<open>get_capital_by_iso_code\<close> starts with \<^verbatim>\<open>iso_code.isdigit()\<close>. A country record has
  no such method, so the call raises \<^verbatim>\<open>AttributeError\<close> there.
\<close>

definition get_capital_by_iso_code :: "directory \<Rightarrow> capital_table \<Rightarrow> query \<Rightarrow> error + string" where
  "get_capital_by_iso_code d capitals q =
     (case q of
        Rec c \<Rightarrow> Inl AttributeError
      | Str iso_code \<Rightarrow>
          if isdigit iso_code then get_capital_by_numeric d capitals iso_code
          else if length iso_code = 2 then get_capital_by_alpha2 d capitals iso_code
          else if length iso_code = 3 then get_capital_by_alpha3 d capitals iso_code
          else Inl ValueError)"

text \<open>Python's \<^verbatim>\<open>a or b\<close> on two lookup results: a record is truthy, \<^verbatim>\<open>None\<close> is not.\<close>

definition py_or :: "'a option \<Rightarrow> 'a option \<Rightarrow> 'a option" where
  "py_or a b = (case a of None \<Rightarrow> b | Some x \<Rightarrow> Some x)"

text \<open>
  \<^verbatim>\<open>get_capital_by_name\<close> makes the three lookups, raises when
  \<^verbatim>\<open>any([...])\<close> is false, that is when the chain of \<^verbatim>\<open>or\<close> yields \<^verbatim>\<open>None\<close>, and goes
  on with the value of that chain otherwise.
\<close>

definition get_capital_by_name :: "directory \<Rightarrow> capital_table \<Rightarrow> query \<Rightarrow> error + string" where
  "get_capital_by_name d capitals country_name =
     (let country_from_name = get_name d country_name;
          country_from_common_name = get_common_name d country_name;
          country_from_official_name = get_official_name d country_name
      in (case py_or (py_or country_from_name country_from_common_name)
                     country_from_official_name of
            None \<Rightarrow> Inl CountryNotFoundError
          | Some c \<Rightarrow>
              (case capitals (alpha_3 c) of
                 None \<Rightarrow> Inl CapitalNotFoundError
               | Some v \<Rightarrow> Inr v)))"

definition get_capital_by_fuzzy_name :: "directory \<Rightarrow> capital_table \<Rightarrow> query \<Rightarrow> error + string" where
  "get_capital_by_fuzzy_name d capitals country_name =
     (case search_fuzzy d country_name of
        [] \<Rightarrow> Inl CountryNotFoundError
      | c # _ \<Rightarrow>
          (case capitals (alpha_3 c) of
             None \<Rightarrow> Inl CapitalNotFoundError
           | Some v \<Rightarrow> Inr v))"

section \<open>The chain\<close>

text \<open>The list \<^verbatim>\<open>FUNCTIONS\<close> that \<^verbatim>\<open>get_capital\<close> builds.\<close>

definition FUNCTIONS :: "directory \<Rightarrow> capital_table \<Rightarrow> bool \<Rightarrow> (query \<Rightarrow> error + string) list" where
  "FUNCTIONS d capitals fuzzy =
     [get_capital_by_iso_code d capitals,
      get_capital_by_name d capitals,
      get_capital_by_pycountry_country capitals]
     @ (if fuzzy then [get_capital_by_fuzzy_name d capitals] else [])"

text \<open>
  The loop of \<^verbatim>\<open>get_capital\<close>: the value of the first function that returns; an
  exception that \<^verbatim>\<open>except ValueError\<close> catches moves on to the next function, any other
  exception leaves the loop and the call; after the last function, the \<^verbatim>\<open>ValueError\<close> of
  the last line.
\<close>

fun try_funcs :: "(query \<Rightarrow> error + string) list \<Rightarrow> query \<Rightarrow> error + string" where
  "try_funcs [] q = Inl ValueError"
| "try_funcs (func # funcs) q =
     (case func q of
        Inr v \<Rightarrow> Inr v
      | Inl e \<Rightarrow> if is_ValueError e then try_funcs funcs q else Inl e)"

text \<open>
  \<^verbatim>\<open>get_capital\<close>. The decorator \<^verbatim>\<open>lru_cache\<close> stores results of a function that reads
  nothing but its arguments and the two fixed collaborators, so it does not change what
  a call returns.
\<close>

definition get_capital :: "directory \<Rightarrow> capital_table \<Rightarrow> query \<Rightarrow> bool \<Rightarrow> error + string" where
  "get_capital d capitals q fuzzy = try_funcs (FUNCTIONS d capitals fuzzy) q"

section \<open>A small directory and table\<close>

text \<open>
  Three records of the directory and a table that has a capital for two of them, used to
  run the resolver on concrete queries.
\<close>

definition france :: country where
  "france = \<lparr>alpha_2 = ''FR'', alpha_3 = ''FRA'', numeric = ''250'', name = ''France''\<rparr>"

definition afghanistan :: country where
  "afghanistan = \<lparr>alpha_2 = ''AF'', alpha_3 = ''AFG'', numeric = ''004'', name = ''Afghanistan''\<rparr>"

definition antarctica :: country where
  "antarctica = \<lparr>alpha_2 = ''AQ'', alpha_3 = ''ATA'', numeric = ''010'', name = ''Antarctica''\<rparr>"

definition example_countries :: "country list" where
  "example_countries = [france, afghanistan, antarctica]"

definition example_directory :: directory where
  "example_directory =
     \<lparr>get_alpha_2 = (\<lambda>k. find (\<lambda>c. alpha_2 c = k) example_countries),
      get_alpha_3 = (\<lambda>k. find (\<lambda>c. alpha_3 c = k) example_countries),
      get_numeric = (\<lambda>k. find (\<lambda>c. numeric c = k) example_countries),
      get_name = (\<lambda>q. find (\<lambda>c. Str (name c) = q) example_countries),
      get_common_name = (\<lambda>q. None),
      get_official_name = (\<lambda>q. if q = Str ''French Republic'' then Some france else None),
      search_fuzzy = (\<lambda>q. if q = Str ''Franse'' then [france] else [])\<rparr>"

definition example_capitals :: capital_table where
  "example_capitals = [''FRA'' \<mapsto> ''Paris'', ''AFG'' \<mapsto> ''Kabul'']"

section \<open>Properties of the primitives\<close>

lemma zfill_long: "width \<le> length s \<Longrightarrow> zfill width s = s"
  by (simp add: zfill_def)

text \<open>A string of digits has no leading sign, so \<^const>\<open>zfill\<close> pads it at the front.\<close>

lemma zfill_isdigit: "isdigit s \<Longrightarrow> zfill width s = replicate (width - length s) (CHR ''0'') @ s"
  by (cases s) (auto simp: zfill_def isdigit_def is_digit_char_def)

lemma replicate_zero_3: "replicate 3 (CHR ''0'') = ''000''"
  by (simp add: numeral_3_eq_3)

lemma replicate_zero_2: "replicate 2 (CHR ''0'') = ''00''"
  by (simp add: numeral_2_eq_2)

section \<open>Which exceptions leave the strategies\<close>

text \<open>
  On a string, the ISO-code strategy raises nothing but \<^verbatim>\<open>ValueError\<close> and its two
  subclasses, and so does the name strategy on every query.
\<close>

lemma iso_code_Str_error:
  "get_capital_by_iso_code d caps (Str s) = Inl e \<Longrightarrow> is_ValueError e"
  by (auto simp: get_capital_by_iso_code_def get_capital_by_numeric_def
        get_capital_by_alpha2_def get_capital_by_alpha3_def
      split: if_splits option.splits)

lemma name_error:
  "get_capital_by_name d caps q = Inl e \<Longrightarrow> is_ValueError e"
  by (auto simp: get_capital_by_name_def Let_def split: option.splits)

text \<open>
  What \<^const>\<open>get_capital\<close> computes on a string: the ISO-code strategy, then the name
  strategy, then the country-record strategy, which reads \<^verbatim>\<open>alpha_3\<close> from the
  string and so ends the call with \<^verbatim>\<open>AttributeError\<close>. On a record the call ends in
  the first strategy.
\<close>

lemma get_capital_Str:
  "get_capital d caps (Str s) fz =
     (case get_capital_by_iso_code d caps (Str s) of
        Inr v \<Rightarrow> Inr v
      | Inl e \<Rightarrow>
          (case get_capital_by_name d caps (Str s) of
             Inr v \<Rightarrow> Inr v
           | Inl e' \<Rightarrow> Inl AttributeError))"
  by (auto simp: get_capital_def FUNCTIONS_def get_capital_by_pycountry_country_def
      split: sum.splits dest: iso_code_Str_error name_error)

lemma get_capital_Rec: "get_capital d caps (Rec c) fz = Inl AttributeError"
  by (simp add: get_capital_def FUNCTIONS_def get_capital_by_iso_code_def)

lemma get_capital_outcomes:
  "get_capital d caps q fz = Inl AttributeError \<or> (\<exists>v. get_capital d caps q fz = Inr v)"
  by (cases q) (auto simp: get_capital_Str get_capital_Rec split: sum.splits)

text \<open>Unfolding rules for running the resolver on the small directory.\<close>

lemmas example_defs = example_directory_def example_countries_def example_capitals_def
  france_def afghanistan_def antarctica_def

lemmas strategy_defs = get_capital_by_iso_code_def get_capital_by_numeric_def
  get_capital_by_alpha2_def get_capital_by_alpha3_def get_capital_by_name_def
  get_capital_by_fuzzy_name_def get_capital_by_pycountry_country_def py_or_def

lemmas string_defs = isdigit_def is_digit_char_def zfill_def replicate_zero_2 replicate_zero_3

section \<open>The claims\<close>

text \<open>
  In the statements below, the error kinds of the specification are the exception
  classes of the source: \<^verbatim>\<open>InvalidFormat\<close> and the aggregate \<^verbatim>\<open>NotFound\<close> are a plain
  \<^verbatim>\<open>ValueError\<close>, \<^verbatim>\<open>CountryNotFound\<close> is \<^verbatim>\<open>CountryNotFoundError\<close> and
  \<^verbatim>\<open>CapitalNotFound\<close> is \<^verbatim>\<open>CapitalNotFoundError\<close>.
\<close>

subsection \<open>The chain\<close>

text \<open>
  Claim C1: for every query, \<^verbatim>\<open>get_capital\<close> tries the strategies in the order ISO
  code, name, country record, fuzzy name (the last one only when the flag is set), catches
  any failure of a strategy, goes on with the next one and returns the capital of the first
  strategy that succeeds.

  The source catches \<^verbatim>\<open>ValueError\<close> only. On the query \<^verbatim>\<open>"Franse"\<close> with the flag set,
  the ISO-code strategy and the name strategy fail with a \<^verbatim>\<open>ValueError\<close>, the
  country-record strategy reads \<^verbatim>\<open>alpha_3\<close> from the string and raises
  \<^verbatim>\<open>AttributeError\<close>, and the call ends there: the fuzzy-name strategy, which returns
  \<^verbatim>\<open>"Paris"\<close> when it is called on this query, is not reached.
\<close>

theorem fuzzy_strategy_not_reached:
  "get_capital_by_iso_code example_directory example_capitals (Str ''Franse'') = Inl ValueError
   \<and> get_capital_by_name example_directory example_capitals (Str ''Franse'')
       = Inl CountryNotFoundError
   \<and> get_capital_by_pycountry_country example_capitals (Str ''Franse'') = Inl AttributeError
   \<and> get_capital_by_fuzzy_name example_directory example_capitals (Str ''Franse'') = Inr ''Paris''
   \<and> get_capital example_directory example_capitals (Str ''Franse'') True = Inl AttributeError"
  by (simp add: get_capital_def FUNCTIONS_def strategy_defs string_defs example_defs)

text \<open>
  Claim C3: for every query on which all attempted strategies fail, \<^verbatim>\<open>get_capital\<close>
  fails with one generic not-found error, the \<^verbatim>\<open>ValueError\<close> of its last line.

  On the query \<^verbatim>\<open>"XX"\<close> the ISO-code strategy and the name strategy find no country, and the
  call ends with the \<^verbatim>\<open>AttributeError\<close> of the country-record strategy, not with the
  \<^verbatim>\<open>ValueError\<close> of the last line. By \<open>get_capital_outcomes\<close> no query reaches that line.
\<close>

theorem unknown_code_not_generic_error:
  "get_capital_by_iso_code example_directory example_capitals (Str ''XX'')
       = Inl CountryNotFoundError
   \<and> get_capital_by_name example_directory example_capitals (Str ''XX'')
       = Inl CountryNotFoundError
   \<and> get_capital_by_pycountry_country example_capitals (Str ''XX'') = Inl AttributeError
   \<and> get_capital example_directory example_capitals (Str ''XX'') False = Inl AttributeError
   \<and> get_capital example_directory example_capitals (Str ''XX'') False \<noteq> Inl ValueError"
  by (simp add: get_capital_def FUNCTIONS_def strategy_defs string_defs example_defs)

text \<open>
  Claim C6: for every query that is a country record with an entry in the capital table,
  \<^verbatim>\<open>get_capital\<close> uses the record and returns its capital.

  The country-record strategy returns the capital of the record of France when it is called
  on it, but \<^verbatim>\<open>get_capital\<close> starts with the ISO-code strategy, whose call
  \<^verbatim>\<open>iso_code.isdigit()\<close> raises \<^verbatim>\<open>AttributeError\<close> on a record, and that exception is not
  caught.
\<close>

theorem record_query_not_resolved:
  "get_capital_by_pycountry_country example_capitals (Rec france) = Inr ''Paris''
   \<and> get_capital_by_iso_code example_directory example_capitals (Rec france)
       = Inl AttributeError
   \<and> get_capital example_directory example_capitals (Rec france) False = Inl AttributeError"
  by (simp add: get_capital_def FUNCTIONS_def strategy_defs example_defs)

text \<open>
  Claim C8: for every string query of length 4 or more that is not made of digits, the
  ISO-code strategy fails with \<^verbatim>\<open>InvalidFormat\<close>, and \<^verbatim>\<open>get_capital\<close> falls through to the
  strategies that follow: its result is the result of the rest of the chain, which starts
  with the name strategy, and a capital that the name strategy finds is returned.
\<close>

theorem invalid_format_falls_through:
  assumes "\<not> list_all is_digit_char s" and "4 \<le> length s"
  shows "get_capital_by_iso_code d caps (Str s) = Inl ValueError
       \<and> get_capital d caps (Str s) fz =
           try_funcs ([get_capital_by_name d caps, get_capital_by_pycountry_country caps]
                      @ (if fz then [get_capital_by_fuzzy_name d caps] else [])) (Str s)
       \<and> (\<forall>v. get_capital_by_name d caps (Str s) = Inr v \<longrightarrow>
             get_capital d caps (Str s) fz = Inr v)"
proof -
  have iso: "get_capital_by_iso_code d caps (Str s) = Inl ValueError"
    using assms by (simp add: get_capital_by_iso_code_def isdigit_def)
  have chain: "get_capital d caps (Str s) fz =
           try_funcs ([get_capital_by_name d caps, get_capital_by_pycountry_country caps]
                      @ (if fz then [get_capital_by_fuzzy_name d caps] else [])) (Str s)"
    by (simp add: get_capital_def FUNCTIONS_def iso)
  have "get_capital d caps (Str s) fz = Inr v"
    if "get_capital_by_name d caps (Str s) = Inr v" for v
    using that by (simp add: chain)
  with iso chain show ?thesis by blast
qed

theorem invalid_format_falls_through_witness:
  "\<not> list_all is_digit_char ''France'' \<and> 4 \<le> length ''France''
   \<and> get_capital_by_iso_code example_directory example_capitals (Str ''France'') = Inl ValueError
   \<and> get_capital_by_name example_directory example_capitals (Str ''France'') = Inr ''Paris''
   \<and> get_capital example_directory example_capitals (Str ''France'') False = Inr ''Paris''"
proof -
  have h1: "\<not> list_all is_digit_char ''France''" by (simp add: is_digit_char_def)
  have h2: "4 \<le> length ''France''" by simp
  have n: "get_capital_by_name example_directory example_capitals (Str ''France'') = Inr ''Paris''"
    by (simp add: get_capital_by_name_def py_or_def example_defs)
  from invalid_format_falls_through [OF h1 h2, of example_directory example_capitals False] n
  have "get_capital_by_iso_code example_directory example_capitals (Str ''France'') = Inl ValueError
      \<and> get_capital example_directory example_capitals (Str ''France'') False = Inr ''Paris''"
    by blast
  with h1 h2 n show ?thesis by blast
qed

subsection \<open>The strategies called directly\<close>

text \<open>
  Claim C2: for the alpha-2, the alpha-3 and the numeric strategy, on a query of the accepted
  shape (two characters, three characters, digits): when the directory has no record the
  strategy fails with \<^verbatim>\<open>CountryNotFound\<close>; when the alpha-3 code of the record is not a key
  of the capital table it fails with \<^verbatim>\<open>CapitalNotFound\<close>; otherwise it returns the table
  entry of that code. The numeric strategy looks up the padded code.
\<close>

theorem code_strategies_outcomes:
  assumes "length a2 = 2" and "length a3 = 3" and "isdigit n"
  shows "(get_alpha_2 d a2 = None \<longrightarrow>
            get_capital_by_alpha2 d caps a2 = Inl CountryNotFoundError)
       \<and> (\<forall>c. get_alpha_2 d a2 = Some c \<and> alpha_3 c \<notin> dom caps \<longrightarrow>
            get_capital_by_alpha2 d caps a2 = Inl CapitalNotFoundError)
       \<and> (\<forall>c v. get_alpha_2 d a2 = Some c \<and> caps (alpha_3 c) = Some v \<longrightarrow>
            get_capital_by_alpha2 d caps a2 = Inr v)
       \<and> (get_alpha_3 d a3 = None \<longrightarrow>
            get_capital_by_alpha3 d caps a3 = Inl CountryNotFoundError)
       \<and> (\<forall>c. get_alpha_3 d a3 = Some c \<and> alpha_3 c \<notin> dom caps \<longrightarrow>
            get_capital_by_alpha3 d caps a3 = Inl CapitalNotFoundError)
       \<and> (\<forall>c v. get_alpha_3 d a3 = Some c \<and> caps (alpha_3 c) = Some v \<longrightarrow>
            get_capital_by_alpha3 d caps a3 = Inr v)
       \<and> (get_numeric d (zfill 3 n) = None \<longrightarrow>
            get_capital_by_numeric d caps n = Inl CountryNotFoundError)
       \<and> (\<forall>c. get_numeric d (zfill 3 n) = Some c \<and> alpha_3 c \<notin> dom caps \<longrightarrow>
            get_capital_by_numeric d caps n = Inl CapitalNotFoundError)
       \<and> (\<forall>c v. get_numeric d (zfill 3 n) = Some c \<and> caps (alpha_3 c) = Some v \<longrightarrow>
            get_capital_by_numeric d caps n = Inr v)"
proof -
  have a2: "get_capital_by_alpha2 d caps a2 =
      (case get_alpha_2 d a2 of None \<Rightarrow> Inl CountryNotFoundError
       | Some c \<Rightarrow> (case caps (alpha_3 c) of None \<Rightarrow> Inl CapitalNotFoundError | Some v \<Rightarrow> Inr v))"
    using assms(1) by (simp add: get_capital_by_alpha2_def)
  have a3: "get_capital_by_alpha3 d caps a3 =
      (case get_alpha_3 d a3 of None \<Rightarrow> Inl CountryNotFoundError
       | Some c \<Rightarrow> (case caps (alpha_3 c) of None \<Rightarrow> Inl CapitalNotFoundError | Some v \<Rightarrow> Inr v))"
    using assms(2) by (simp add: get_capital_by_alpha3_def)
  have n: "get_capital_by_numeric d caps n =
      (case get_numeric d (zfill 3 n) of None \<Rightarrow> Inl CountryNotFoundError
       | Some c \<Rightarrow> (case caps (alpha_3 c) of None \<Rightarrow> Inl CapitalNotFoundError | Some v \<Rightarrow> Inr v))"
    using assms(3) by (simp add: get_capital_by_numeric_def)
  show ?thesis
    unfolding a2 a3 n by (auto simp: domIff)
qed

theorem code_strategies_outcomes_witness:
  "length ''FR'' = 2 \<and> length ''ATA'' = 3 \<and> isdigit ''999''
   \<and> get_alpha_2 example_directory ''FR'' = Some france
   \<and> example_capitals (alpha_3 france) = Some ''Paris''
   \<and> get_capital_by_alpha2 example_directory example_capitals ''FR'' = Inr ''Paris''
   \<and> get_alpha_3 example_directory ''ATA'' = Some antarctica
   \<and> alpha_3 antarctica \<notin> dom example_capitals
   \<and> get_capital_by_alpha3 example_directory example_capitals ''ATA'' = Inl CapitalNotFoundError
   \<and> get_numeric example_directory (zfill 3 ''999'') = None
   \<and> get_capital_by_numeric example_directory example_capitals ''999'' = Inl CountryNotFoundError"
proof -
  have h1: "length ''FR'' = 2" by simp
  have h2: "length ''ATA'' = 3" by simp
  have h3: "isdigit ''999''" by (simp add: string_defs)
  have l1: "get_alpha_2 example_directory ''FR'' = Some france" by (simp add: example_defs)
  have c1: "example_capitals (alpha_3 france) = Some ''Paris''" by (simp add: example_defs)
  have l2: "get_alpha_3 example_directory ''ATA'' = Some antarctica" by (simp add: example_defs)
  have c2: "alpha_3 antarctica \<notin> dom example_capitals" by (simp add: example_defs)
  have l3: "get_numeric example_directory (zfill 3 ''999'') = None" by (simp add: example_defs string_defs)
  from code_strategies_outcomes [OF h1 h2 h3, of example_directory example_capitals]
  have "get_capital_by_alpha2 example_directory example_capitals ''FR'' = Inr ''Paris''"
    and "get_capital_by_alpha3 example_directory example_capitals ''ATA'' = Inl CapitalNotFoundError"
    and "get_capital_by_numeric example_directory example_capitals ''999'' = Inl CountryNotFoundError"
    using l1 c1 l2 c2 l3 by blast+
  with h1 h2 h3 l1 c1 l2 c2 l3 show ?thesis by blast
qed

text \<open>
  Claim C4: the ISO-code strategy treats a string whose characters are all digits as a
  numeric code; any other string of length 2 as an alpha-2 code; any other string of length
  3 as an alpha-3 code; and it rejects every remaining string with \<^verbatim>\<open>InvalidFormat\<close>, for
  every directory, hence without a lookup. (The empty string is rejected with the same
  exception class by the ISO-code strategy and by the numeric strategy.)
\<close>

theorem iso_code_classification:
  "(list_all is_digit_char s \<longrightarrow>
      get_capital_by_iso_code d caps (Str s) = get_capital_by_numeric d caps s)
 \<and> (\<not> list_all is_digit_char s \<and> length s = 2 \<longrightarrow>
      get_capital_by_iso_code d caps (Str s) = get_capital_by_alpha2 d caps s)
 \<and> (\<not> list_all is_digit_char s \<and> length s \<noteq> 2 \<and> length s = 3 \<longrightarrow>
      get_capital_by_iso_code d caps (Str s) = get_capital_by_alpha3 d caps s)
 \<and> (\<not> list_all is_digit_char s \<and> length s \<noteq> 2 \<and> length s \<noteq> 3 \<longrightarrow>
      get_capital_by_iso_code d caps (Str s) = Inl ValueError)"
  by (cases "s = []")
     (simp_all add: get_capital_by_iso_code_def get_capital_by_numeric_def isdigit_def)

theorem iso_code_classification_witness:
  "list_all is_digit_char ''250''
   \<and> get_capital_by_iso_code example_directory example_capitals (Str ''250'')
       = get_capital_by_numeric example_directory example_capitals ''250''
   \<and> \<not> list_all is_digit_char ''FR'' \<and> length ''FR'' = 2
   \<and> get_capital_by_iso_code example_directory example_capitals (Str ''FR'')
       = get_capital_by_alpha2 example_directory example_capitals ''FR''
   \<and> \<not> list_all is_digit_char ''FRA'' \<and> length ''FRA'' \<noteq> 2 \<and> length ''FRA'' = 3
   \<and> get_capital_by_iso_code example_directory example_capitals (Str ''FRA'')
       = get_capital_by_alpha3 example_directory example_capitals ''FRA''
   \<and> \<not> list_all is_digit_char ''ABCD'' \<and> length ''ABCD'' \<noteq> 2 \<and> length ''ABCD'' \<noteq> 3
   \<and> get_capital_by_iso_code example_directory example_capitals (Str ''ABCD'') = Inl ValueError"
proof -
  have h1: "list_all is_digit_char ''250''" by (simp add: is_digit_char_def)
  have h2: "\<not> list_all is_digit_char ''FR'' \<and> length ''FR'' = 2" by (simp add: is_digit_char_def)
  have h3: "\<not> list_all is_digit_char ''FRA'' \<and> length ''FRA'' \<noteq> 2 \<and> length ''FRA'' = 3"
    by (simp add: is_digit_char_def)
  have h4: "\<not> list_all is_digit_char ''ABCD'' \<and> length ''ABCD'' \<noteq> 2 \<and> length ''ABCD'' \<noteq> 3"
    by (simp add: is_digit_char_def)
  show ?thesis
    using h1 h2 h3 h4
      iso_code_classification [of "''250''" example_directory example_capitals]
      iso_code_classification [of "''FR''" example_directory example_capitals]
      iso_code_classification [of "''FRA''" example_directory example_capitals]
      iso_code_classification [of "''ABCD''" example_directory example_capitals]
    by blast
qed

text \<open>
  Claim C5: the numeric strategy looks the code up after padding it with zeros on the left
  to three characters; and when the directory maps the padded code to a country whose
  alpha-3 code (three characters, not digits) it maps back to the same country, the numeric
  code and the alpha-3 code have the same result in the numeric and the alpha-3 strategy
  and in the ISO-code strategy, and \<^verbatim>\<open>get_capital\<close> returns the same capital for both when
  the table has one.
\<close>

theorem numeric_padded_and_agrees_with_alpha3:
  assumes "isdigit n"
  shows "get_capital_by_numeric d caps n =
           (case get_numeric d (replicate (3 - length n) (CHR ''0'') @ n) of
              None \<Rightarrow> Inl CountryNotFoundError
            | Some c \<Rightarrow>
                (case caps (alpha_3 c) of
                   None \<Rightarrow> Inl CapitalNotFoundError
                 | Some v \<Rightarrow> Inr v))
       \<and> (\<forall>c. get_numeric d (replicate (3 - length n) (CHR ''0'') @ n) = Some c
               \<and> get_alpha_3 d (alpha_3 c) = Some c
               \<and> length (alpha_3 c) = 3 \<and> \<not> isdigit (alpha_3 c) \<longrightarrow>
             get_capital_by_numeric d caps n = get_capital_by_alpha3 d caps (alpha_3 c)
           \<and> get_capital_by_iso_code d caps (Str n)
               = get_capital_by_iso_code d caps (Str (alpha_3 c))
           \<and> (\<forall>v. caps (alpha_3 c) = Some v \<longrightarrow>
                 get_capital d caps (Str n) fz = Inr v
               \<and> get_capital d caps (Str (alpha_3 c)) fz = Inr v))"
proof -
  have pad: "zfill 3 n = replicate (3 - length n) (CHR ''0'') @ n"
    using assms by (rule zfill_isdigit)
  have num: "get_capital_by_numeric d caps n =
           (case get_numeric d (replicate (3 - length n) (CHR ''0'') @ n) of
              None \<Rightarrow> Inl CountryNotFoundError
            | Some c \<Rightarrow>
                (case caps (alpha_3 c) of
                   None \<Rightarrow> Inl CapitalNotFoundError
                 | Some v \<Rightarrow> Inr v))"
    using assms by (simp add: get_capital_by_numeric_def pad)
  have iso_n: "get_capital_by_iso_code d caps (Str n) = get_capital_by_numeric d caps n"
    using assms by (simp add: get_capital_by_iso_code_def)
  have rest: "get_capital_by_numeric d caps n = get_capital_by_alpha3 d caps (alpha_3 c)
           \<and> get_capital_by_iso_code d caps (Str n)
               = get_capital_by_iso_code d caps (Str (alpha_3 c))
           \<and> (\<forall>v. caps (alpha_3 c) = Some v \<longrightarrow>
                 get_capital d caps (Str n) fz = Inr v
               \<and> get_capital d caps (Str (alpha_3 c)) fz = Inr v)"
    if c: "get_numeric d (replicate (3 - length n) (CHR ''0'') @ n) = Some c"
      and inv: "get_alpha_3 d (alpha_3 c) = Some c"
      and len: "length (alpha_3 c) = 3" and nd: "\<not> isdigit (alpha_3 c)" for c
  proof -
    have a3: "get_capital_by_alpha3 d caps (alpha_3 c) =
        (case caps (alpha_3 c) of None \<Rightarrow> Inl CapitalNotFoundError | Some v \<Rightarrow> Inr v)"
      using inv len by (simp add: get_capital_by_alpha3_def)
    have n3: "get_capital_by_numeric d caps n =
        (case caps (alpha_3 c) of None \<Rightarrow> Inl CapitalNotFoundError | Some v \<Rightarrow> Inr v)"
      using c by (simp add: num)
    have iso_a: "get_capital_by_iso_code d caps (Str (alpha_3 c))
        = get_capital_by_alpha3 d caps (alpha_3 c)"
      using len nd by (simp add: get_capital_by_iso_code_def)
    show ?thesis
      by (simp add: get_capital_Str iso_n iso_a a3 n3)
  qed
  from num rest show ?thesis by blast
qed

theorem numeric_padded_and_agrees_with_alpha3_witness:
  "isdigit ''4''
   \<and> replicate (3 - length ''4'') (CHR ''0'') @ ''4'' = ''004''
   \<and> get_numeric example_directory (replicate (3 - length ''4'') (CHR ''0'') @ ''4'')
       = Some afghanistan
   \<and> get_alpha_3 example_directory (alpha_3 afghanistan) = Some afghanistan
   \<and> length (alpha_3 afghanistan) = 3 \<and> \<not> isdigit (alpha_3 afghanistan)
   \<and> example_capitals (alpha_3 afghanistan) = Some ''Kabul''
   \<and> get_capital example_directory example_capitals (Str ''4'') False = Inr ''Kabul''
   \<and> get_capital example_directory example_capitals (Str (alpha_3 afghanistan)) False
       = Inr ''Kabul''"
proof -
  have h: "isdigit ''4''" by (simp add: string_defs)
  have l: "get_numeric example_directory (replicate (3 - length ''4'') (CHR ''0'') @ ''4'')
       = Some afghanistan"
    by (simp add: example_defs string_defs)
  have b: "get_alpha_3 example_directory (alpha_3 afghanistan) = Some afghanistan"
    by (simp add: example_defs)
  have s: "length (alpha_3 afghanistan) = 3 \<and> \<not> isdigit (alpha_3 afghanistan)"
    by (simp add: example_defs string_defs)
  have k: "example_capitals (alpha_3 afghanistan) = Some ''Kabul''"
    by (simp add: example_defs)
  have p: "replicate (3 - length ''4'') (CHR ''0'') @ ''4'' = ''004''"
    by (simp add: replicate_zero_2)
  from numeric_padded_and_agrees_with_alpha3 [OF h, of example_directory example_capitals False]
    l b s k
  have "get_capital example_directory example_capitals (Str ''4'') False = Inr ''Kabul''
      \<and> get_capital example_directory example_capitals (Str (alpha_3 afghanistan)) False
          = Inr ''Kabul''"
    by blast
  with h p l b s k show ?thesis by blast
qed

text \<open>
  Claim C7: called directly on a country record whose alpha-3 code has no entry in the
  capital table, the country-record strategy fails with \<^verbatim>\<open>CapitalNotFound\<close>.

  The source raises a plain \<^verbatim>\<open>ValueError\<close> there, where the other strategies raise
  \<^verbatim>\<open>CapitalNotFoundError\<close>: on the record of Antarctica, which has no capital in the small
  table, the country-record strategy and the alpha-3 strategy raise different classes.
\<close>

theorem record_strategy_error_class:
  "get_capital_by_pycountry_country example_capitals (Rec antarctica) = Inl ValueError
   \<and> get_capital_by_pycountry_country example_capitals (Rec antarctica)
       \<noteq> Inl CapitalNotFoundError
   \<and> get_capital_by_alpha3 example_directory example_capitals ''ATA''
       = Inl CapitalNotFoundError"
  by (simp add: strategy_defs example_defs)

text \<open>
  Claim C9: the name strategy looks the query up as a name, then as a common name, then as
  an official name; the first lookup that finds a record decides the country, whose table
  entry is returned (\<^verbatim>\<open>CapitalNotFound\<close> when it has none); when no lookup finds a record the
  strategy fails with \<^verbatim>\<open>CountryNotFound\<close>.
\<close>

theorem name_strategy_order:
  "(\<forall>c. get_name d q = Some c \<longrightarrow>
      get_capital_by_name d caps q =
        (case caps (alpha_3 c) of None \<Rightarrow> Inl CapitalNotFoundError | Some v \<Rightarrow> Inr v))
 \<and> (\<forall>c. get_name d q = None \<and> get_common_name d q = Some c \<longrightarrow>
      get_capital_by_name d caps q =
        (case caps (alpha_3 c) of None \<Rightarrow> Inl CapitalNotFoundError | Some v \<Rightarrow> Inr v))
 \<and> (\<forall>c. get_name d q = None \<and> get_common_name d q = None
          \<and> get_official_name d q = Some c \<longrightarrow>
      get_capital_by_name d caps q =
        (case caps (alpha_3 c) of None \<Rightarrow> Inl CapitalNotFoundError | Some v \<Rightarrow> Inr v))
 \<and> (get_name d q = None \<and> get_common_name d q = None \<and> get_official_name d q = None \<longrightarrow>
      get_capital_by_name d caps q = Inl CountryNotFoundError)"
  by (simp add: get_capital_by_name_def py_or_def)

theorem name_strategy_order_witness:
  "get_name example_directory (Str ''French Republic'') = None
   \<and> get_common_name example_directory (Str ''French Republic'') = None
   \<and> get_official_name example_directory (Str ''French Republic'') = Some france
   \<and> get_capital_by_name example_directory example_capitals (Str ''French Republic'')
       = Inr ''Paris''
   \<and> get_name example_directory (Str ''Antarctica'') = Some antarctica
   \<and> get_capital_by_name example_directory example_capitals (Str ''Antarctica'')
       = Inl CapitalNotFoundError
   \<and> get_name example_directory (Str ''Atlantis'') = None
   \<and> get_common_name example_directory (Str ''Atlantis'') = None
   \<and> get_official_name example_directory (Str ''Atlantis'') = None
   \<and> get_capital_by_name example_directory example_capitals (Str ''Atlantis'')
       = Inl CountryNotFoundError"
proof -
  have f: "get_name example_directory (Str ''French Republic'') = None
   \<and> get_common_name example_directory (Str ''French Republic'') = None
   \<and> get_official_name example_directory (Str ''French Republic'') = Some france"
    by (simp add: example_defs)
  have a: "get_name example_directory (Str ''Antarctica'') = Some antarctica"
    by (simp add: example_defs)
  have z: "get_name example_directory (Str ''Atlantis'') = None
   \<and> get_common_name example_directory (Str ''Atlantis'') = None
   \<and> get_official_name example_directory (Str ''Atlantis'') = None"
    by (simp add: example_defs)
  have cf: "example_capitals (alpha_3 france) = Some ''Paris''" by (simp add: example_defs)
  have ca: "example_capitals (alpha_3 antarctica) = None" by (simp add: example_defs)
  from name_strategy_order [of example_directory "Str ''French Republic''" example_capitals] f
  have r1: "get_capital_by_name example_directory example_capitals (Str ''French Republic'')
       = Inr ''Paris''"
    by (simp add: cf)
  from name_strategy_order [of example_directory "Str ''Antarctica''" example_capitals] a
  have r2: "get_capital_by_name example_directory example_capitals (Str ''Antarctica'')
       = Inl CapitalNotFoundError"
    by (simp add: ca)
  from name_strategy_order [of example_directory "Str ''Atlantis''" example_capitals] z
  have r3: "get_capital_by_name example_directory example_capitals (Str ''Atlantis'')
       = Inl CountryNotFoundError"
    by blast
  from f a z r1 r2 r3 show ?thesis by blast
qed

text \<open>
  Claim C10: a string of more than three digits is a numeric code for the ISO-code
  strategy: padding leaves it as it is, the directory is asked for exactly this string, and
  the strategy fails with \<^verbatim>\<open>CountryNotFound\<close> when the directory has no such code, never
  with \<^verbatim>\<open>InvalidFormat\<close>.
\<close>

theorem long_digit_string_is_numeric:
  assumes "list_all is_digit_char s" and "3 < length s"
  shows "zfill 3 s = s
       \<and> get_capital_by_iso_code d caps (Str s) =
           (case get_numeric d s of
              None \<Rightarrow> Inl CountryNotFoundError
            | Some c \<Rightarrow>
                (case caps (alpha_3 c) of
                   None \<Rightarrow> Inl CapitalNotFoundError
                 | Some v \<Rightarrow> Inr v))
       \<and> get_capital_by_iso_code d caps (Str s) \<noteq> Inl ValueError
       \<and> (get_numeric d s = None \<longrightarrow>
             get_capital_by_iso_code d caps (Str s) = Inl CountryNotFoundError)"
proof -
  have dig: "isdigit s" using assms by (auto simp: isdigit_def)
  have pad: "zfill 3 s = s" using assms(2) by (simp add: zfill_long)
  have iso: "get_capital_by_iso_code d caps (Str s) =
           (case get_numeric d s of
              None \<Rightarrow> Inl CountryNotFoundError
            | Some c \<Rightarrow>
                (case caps (alpha_3 c) of
                   None \<Rightarrow> Inl CapitalNotFoundError
                 | Some v \<Rightarrow> Inr v))"
    using dig by (simp add: get_capital_by_iso_code_def get_capital_by_numeric_def pad)
  have "get_capital_by_iso_code d caps (Str s) \<noteq> Inl ValueError"
    unfolding iso by (simp split: option.splits)
  moreover have "get_numeric d s = None \<longrightarrow>
             get_capital_by_iso_code d caps (Str s) = Inl CountryNotFoundError"
    unfolding iso by simp
  ultimately show ?thesis using pad iso by blast
qed

theorem long_digit_string_is_numeric_witness:
  "list_all is_digit_char ''12345'' \<and> 3 < length ''12345''
   \<and> zfill 3 ''12345'' = ''12345''
   \<and> get_numeric example_directory ''12345'' = None
   \<and> get_capital_by_iso_code example_directory example_capitals (Str ''12345'')
       = Inl CountryNotFoundError"
proof -
  have h1: "list_all is_digit_char ''12345''" by (simp add: is_digit_char_def)
  have h2: "3 < length ''12345''" by simp
  have l: "get_numeric example_directory ''12345'' = None" by (simp add: example_defs)
  from long_digit_string_is_numeric [OF h1 h2, of example_directory example_capitals] l
  have "zfill 3 ''12345'' = ''12345''
      \<and> get_capital_by_iso_code example_directory example_capitals (Str ''12345'')
          = Inl CountryNotFoundError"
    by blast
  with h1 h2 l show ?thesis by blast
qed

end
